theory Spec2Isabelle
  imports Complex_Main
begin

section \<open>The reconnecting WebSocket client (frontend/lib/api.ts, class WSClient)\<close>

text \<open>
  The browser's \<^verbatim>\<open>WebSocket\<close> objects live in a store: \<open>sockets\<close> lists the ready state of
  every socket that \<^verbatim>\<open>connect\<close> has constructed, and \<^verbatim>\<open>this.ws\<close> is a reference into it
  (\<open>None\<close> is \<^verbatim>\<open>null\<close>). Several sockets can be alive at once, since \<^verbatim>\<open>connect\<close> replaces
  \<^verbatim>\<open>this.ws\<close> without closing the old socket, whose handlers still refer to the client.
  The fields \<open>timers\<close>, \<open>scheduled\<close>, \<open>wire\<close> and \<open>connect_calls\<close> record the effects:
  the pending \<^verbatim>\<open>setTimeout\<close> callbacks (their delays), every delay ever passed to
  \<^verbatim>\<open>setTimeout\<close>, every frame handed to \<^verbatim>\<open>ws.send\<close> (with its socket), and the number
  of calls of \<^verbatim>\<open>connect\<close>.
\<close>

datatype ready_state = CONNECTING | OPEN | CLOSING | CLOSED

record wsclient =
  url_ok :: bool
  ws :: "nat option"
  sockets :: "ready_state list"
  reconnectAttempts :: nat
  timers :: "nat list"
  scheduled :: "nat list"
  wire :: "(nat \<times> string) list"
  connect_calls :: nat

definition reconnectInterval :: nat where
  "reconnectInterval = 3000"

definition maxReconnectAttempts :: nat where
  "maxReconnectAttempts = 5"

text \<open>
  The constructor. \<open>url_ok\<close> says whether \<^verbatim>\<open>new WebSocket(this.url)\<close> constructs a socket
  for the client's URL; when it does not, the constructor throws and \<^verbatim>\<open>connect\<close> catches.
\<close>

definition WSClient :: "bool \<Rightarrow> wsclient" where
  "WSClient u = \<lparr>url_ok = u, ws = None, sockets = [], reconnectAttempts = 0,
     timers = [], scheduled = [], wire = [], connect_calls = 0\<rparr>"

definition connect :: "wsclient \<Rightarrow> wsclient" where
  "connect s =
     (let s1 = s\<lparr>connect_calls := connect_calls s + 1\<rparr>
      in if url_ok s1
         then s1\<lparr>ws := Some (length (sockets s1)), sockets := sockets s1 @ [CONNECTING]\<rparr>
         else s1)"

definition attemptReconnect :: "wsclient \<Rightarrow> wsclient" where
  "attemptReconnect s =
     (if reconnectAttempts s < maxReconnectAttempts
      then s\<lparr>reconnectAttempts := reconnectAttempts s + 1,
             timers := timers s @ [reconnectInterval],
             scheduled := scheduled s @ [reconnectInterval]\<rparr>
      else s)"

text \<open>\<^verbatim>\<open>this.ws && this.ws.readyState === WebSocket.OPEN\<close>\<close>

definition ws_is_open :: "wsclient \<Rightarrow> bool" where
  "ws_is_open s =
     (case ws s of None \<Rightarrow> False
      | Some i \<Rightarrow> i < length (sockets s) \<and> sockets s ! i = OPEN)"

text \<open>\<open>stringify\<close> stands for \<^verbatim>\<open>JSON.stringify\<close>.\<close>

definition send :: "('d \<Rightarrow> string) \<Rightarrow> 'd \<Rightarrow> wsclient \<Rightarrow> wsclient" where
  "send stringify d s =
     (if ws_is_open s
      then s\<lparr>wire := wire s @ [(the (ws s), stringify d)]\<rparr>
      else connect s)"

text \<open>
  \<^verbatim>\<open>close()\<close> calls \<^verbatim>\<open>this.ws.close()\<close>: the browser moves a connecting or open socket to
  CLOSING and later fires its close event.
\<close>

definition close :: "wsclient \<Rightarrow> wsclient" where
  "close s =
     (case ws s of None \<Rightarrow> s
      | Some i \<Rightarrow>
          if i < length (sockets s) \<and> sockets s ! i \<noteq> CLOSED
          then s\<lparr>sockets := (sockets s)[i := CLOSING]\<rparr> else s)"

text \<open>
  The handlers installed by \<^verbatim>\<open>connect\<close>. The browser fires \<^verbatim>\<open>open\<close> on a connecting socket
  and \<^verbatim>\<open>close\<close> on a socket that is not closed yet; an event for any other socket does
  not occur and is ignored by the model.
\<close>

definition onopen :: "nat \<Rightarrow> wsclient \<Rightarrow> wsclient" where
  "onopen i s =
     (if i < length (sockets s) \<and> sockets s ! i = CONNECTING
      then s\<lparr>sockets := (sockets s)[i := OPEN], reconnectAttempts := 0\<rparr>
      else s)"

definition onclose :: "nat \<Rightarrow> wsclient \<Rightarrow> wsclient" where
  "onclose i s =
     (if i < length (sockets s) \<and> sockets s ! i \<noteq> CLOSED
      then attemptReconnect (s\<lparr>sockets := (sockets s)[i := CLOSED]\<rparr>)
      else s)"

text \<open>A pending \<^verbatim>\<open>setTimeout(() => this.connect(), ...)\<close> fires.\<close>

definition timer_fire :: "wsclient \<Rightarrow> wsclient" where
  "timer_fire s =
     (case timers s of [] \<Rightarrow> s
      | d # ds \<Rightarrow> connect (s\<lparr>timers := ds\<rparr>))"

text \<open>
  Everything that can happen to a client: the calls of its public methods and the
  events of the browser. \<^verbatim>\<open>onmessage\<close> and \<^verbatim>\<open>onerror\<close> touch no field of the client.
\<close>

datatype 'd event =
    Connect | Send 'd | Close
  | SockOpen nat | SockClose nat | SockError nat | SockMessage nat string
  | TimerFire

fun step :: "('d \<Rightarrow> string) \<Rightarrow> 'd event \<Rightarrow> wsclient \<Rightarrow> wsclient" where
  "step f Connect s = connect s"
| "step f (Send d) s = send f d s"
| "step f Close s = close s"
| "step f (SockOpen i) s = onopen i s"
| "step f (SockClose i) s = onclose i s"
| "step f (SockError i) s = s"
| "step f (SockMessage i m) s = s"
| "step f TimerFire s = timer_fire s"

fun run :: "('d \<Rightarrow> string) \<Rightarrow> 'd event list \<Rightarrow> wsclient \<Rightarrow> wsclient" where
  "run f [] s = s"
| "run f (e # es) s = run f es (step f e s)"

fun is_open_event :: "'d event \<Rightarrow> bool" where
  "is_open_event (SockOpen i) = True"
| "is_open_event _ = False"

definition budget :: "wsclient \<Rightarrow> nat" where
  "budget s = length (scheduled s) + (maxReconnectAttempts - reconnectAttempts s)"


section \<open>JSON values as the client sees them\<close>

text \<open>
  What \<^verbatim>\<open>JSON.parse\<close> and \<^verbatim>\<open>response.json()\<close> return. An object is the list of its
  properties in insertion order (a parsed object has no repeated key). Numbers are the
  integers, which a double holds exactly and JavaScript prints in plain decimal as long
  as they are small enough; a number with a fraction or an exponent is outside this
  model. The result of reading a property is a \<open>json option\<close>, \<open>None\<close> being
  \<^verbatim>\<open>undefined\<close>.
\<close>

datatype json =
    JNull | JBool bool | JNum int | JStr string
  | JArr "json list" | JObj "(string \<times> json) list"

text \<open>
  \<^verbatim>\<open>v.k\<close> for a value that is neither \<^verbatim>\<open>null\<close> nor \<^verbatim>\<open>undefined\<close>, and for the
  property names the client reads (\<^verbatim>\<open>detail\<close>, \<^verbatim>\<open>type\<close>, \<^verbatim>\<open>data\<close>, \<^verbatim>\<open>symbol\<close>, ...),
  none of which is a built-in property of a string, a number, a boolean or an array.
\<close>

fun get :: "json \<Rightarrow> string \<Rightarrow> json option" where
  "get (JObj kvs) k = map_of kvs k"
| "get _ k = None"

fun truthy :: "json option \<Rightarrow> bool" where
  "truthy None = False"
| "truthy (Some JNull) = False"
| "truthy (Some (JBool b)) = b"
| "truthy (Some (JNum n)) = (n \<noteq> 0)"
| "truthy (Some (JStr s)) = (s \<noteq> [])"
| "truthy (Some (JArr xs)) = True"
| "truthy (Some (JObj kvs)) = True"

fun show_nat :: "nat \<Rightarrow> string" where
  "show_nat n =
     (if n < 10 then [''0123456789'' ! n]
      else show_nat (n div 10) @ [''0123456789'' ! (n mod 10)])"

declare show_nat.simps [simp del]

definition show_int :: "int \<Rightarrow> string" where
  "show_int i = (if i < 0 then CHR ''-'' # show_nat (nat (- i)) else show_nat (nat i))"

fun join :: "string \<Rightarrow> string list \<Rightarrow> string" where
  "join sep [] = []"
| "join sep [x] = x"
| "join sep (x # y # ys) = x @ sep @ join sep (y # ys)"

text \<open>
  The string conversion of JavaScript (template literals, \<^verbatim>\<open>new Error(x)\<close>, computed
  property keys): an array joins its elements with commas, \<^verbatim>\<open>null\<close> elements being empty.
\<close>

fun ToString :: "json \<Rightarrow> string" where
  "ToString JNull = ''null''"
| "ToString (JBool b) = (if b then ''true'' else ''false'')"
| "ToString (JNum n) = show_int n"
| "ToString (JStr s) = s"
| "ToString (JArr xs) = join '','' (map (\<lambda>x. if x = JNull then [] else ToString x) xs)"
| "ToString (JObj kvs) = ''[object Object]''"

datatype js_error = Error string | TypeError string | SyntaxError string


section \<open>The REST wrapper (frontend/lib/api.ts, api.fetch)\<close>

text \<open>
  \<open>RequestInit\<close> as far as the client uses it. \<open>json_body\<close> is what \<^verbatim>\<open>response.json()\<close>
  resolves to, \<open>None\<close> when the body is not JSON and the promise rejects. The network is
  a function from the request to its outcome: the promise of \<^verbatim>\<open>fetch\<close> rejects, or
  resolves to a response.
\<close>

record request_init =
  http_method :: "string option"
  headers :: "string \<rightharpoonup> string"
  body :: "string option"

record response =
  ok :: bool
  status :: nat
  json_body :: "json option"

datatype fetch_outcome = Rejected js_error | Resolved response

definition api_fetch ::
  "string \<Rightarrow> (string \<Rightarrow> request_init \<Rightarrow> fetch_outcome) \<Rightarrow> string \<Rightarrow> request_init
     \<Rightarrow> js_error + json" where
  "api_fetch API_BASE_URL net endpoint options =
     (let url = API_BASE_URL @ endpoint in
      case net url (options\<lparr>headers :=
               [''Content-Type'' \<mapsto> ''application/json''] ++ headers options\<rparr>) of
        Rejected e \<Rightarrow> Inl e
      | Resolved response \<Rightarrow>
          if \<not> ok response then
            (let errorData = (case json_body response of None \<Rightarrow> JObj [] | Some v \<Rightarrow> v) in
             if errorData = JNull
             then Inl (TypeError ''Cannot read properties of null'')
             else if truthy (get errorData ''detail'')
             then Inl (Error (ToString (the (get errorData ''detail''))))
             else Inl (Error (''Request failed with status '' @ show_nat (status response))))
          else
            (case json_body response of
               None \<Rightarrow> Inl (SyntaxError ''Unexpected token'')
             | Some v \<Rightarrow> Inr v))"

definition response_detail :: "response \<Rightarrow> json option" where
  "response_detail r = (case json_body r of None \<Rightarrow> None | Some b \<Rightarrow> get b ''detail'')"

definition no_options :: request_init where
  "no_options = \<lparr>http_method = None, headers = Map.empty, body = None\<rparr>"


section \<open>The alerts hook (lib/hooks/useAlerts.ts, in unnamed/part_000)\<close>

datatype AlertType = Info | Warning | Signal

text \<open>\<^verbatim>\<open>String.prototype.toLowerCase\<close> on the ASCII letters; other bytes are kept.\<close>

definition toLowerCase :: "string \<Rightarrow> string" where
  "toLowerCase s =
     map (\<lambda>c. case map_of (zip ''ABCDEFGHIJKLMNOPQRSTUVWXYZ'' ''abcdefghijklmnopqrstuvwxyz'') c of
                 None \<Rightarrow> c | Some l \<Rightarrow> l) s"

text \<open>
  \<^verbatim>\<open>(raw || '').toLowerCase()\<close>: a truthy \<^verbatim>\<open>raw\<close> that is not a string has no
  \<^verbatim>\<open>toLowerCase\<close>, and the call throws.
\<close>

definition normalizeType :: "json option \<Rightarrow> js_error + AlertType" where
  "normalizeType raw =
     (case (if truthy raw then the raw else JStr []) of
        JStr s \<Rightarrow>
          (let v = toLowerCase s in
           if v = ''signal'' then Inr Signal
           else if v = ''warning'' then Inr Warning
           else Inr Info)
      | _ \<Rightarrow> Inl (TypeError ''toLowerCase is not a function''))"

text \<open>
  The value stored in an alert's \<^verbatim>\<open>message\<close> field: a string, or a reference to an object
  of the heap (its address and its content). \<^verbatim>\<open>===\<close> compares strings by their
  characters and objects by their address.
\<close>

datatype message_value = Str string | Obj nat json

fun strict_eq :: "message_value \<Rightarrow> message_value \<Rightarrow> bool" where
  "strict_eq (Str s) (Str t) = (s = t)"
| "strict_eq (Obj a v) (Obj b w) = (a = b)"
| "strict_eq _ _ = False"

fun content :: "message_value \<Rightarrow> json" where
  "content (Str s) = JStr s"
| "content (Obj a v) = v"

record RealtimeAlert =
  alert_id :: nat
  alert_type :: AlertType
  message :: message_value
  timestamp :: nat

text \<open>\<^verbatim>\<open>Array.prototype.findIndex\<close>: the first index whose element satisfies \<open>P\<close>, or -1.\<close>

fun findIndex :: "('a \<Rightarrow> bool) \<Rightarrow> 'a list \<Rightarrow> int" where
  "findIndex P [] = - 1"
| "findIndex P (x # xs) =
     (if P x then 0 else (let r = findIndex P xs in if r < 0 then - 1 else r + 1))"

text \<open>The body of the \<^verbatim>\<open>setAlerts\<close> updater after \<^verbatim>\<open>next\<close> is built: filter, then slice.\<close>

definition dedupe_cap :: "RealtimeAlert list \<Rightarrow> RealtimeAlert list" where
  "dedupe_cap next =
     (let unique = map snd (filter
            (\<lambda>(index, alert). int index = findIndex (\<lambda>a. strict_eq (message a) (message alert)) next)
            (enumerate 0 next))
      in take 5 unique)"

record alerts_state =
  alerts :: "RealtimeAlert list"
  alerts_connected :: bool

definition useAlerts_init :: alerts_state where
  "useAlerts_init = \<lparr>alerts = [], alerts_connected = False\<rparr>"

fun is_string :: "json \<Rightarrow> bool" where
  "is_string (JStr t) = True"
| "is_string _ = False"

text \<open>
  \<^verbatim>\<open>handleMessage\<close> of the hook. \<open>now\<close> is the clock (\<^verbatim>\<open>Date.now()\<close>), \<open>addr\<close> the address
  of the object that \<^verbatim>\<open>JSON.parse\<close> built for \<^verbatim>\<open>message.data\<close>. The conditional operator
  binds weaker than \<^verbatim>\<open>||\<close>, so the condition of \<^verbatim>\<open>text\<close> is the whole chain
  \<^verbatim>\<open>payload.message || payload.reason || payload.description || typeof payload === 'string'\<close>
  and its first branch is \<^verbatim>\<open>payload\<close> itself.
\<close>

definition useAlerts_handleMessage ::
  "(json \<Rightarrow> string) \<Rightarrow> nat \<Rightarrow> nat \<Rightarrow> json \<Rightarrow> alerts_state \<Rightarrow> js_error + alerts_state" where
  "useAlerts_handleMessage stringify now addr msg s =
     (if get msg ''type'' = Some (JStr ''subscription_status'') then
        Inr (s\<lparr>alerts_connected :=
               (get msg ''status'' = Some (JStr ''active'') \<or> get msg ''status'' = Some (JStr ''success''))\<rparr>)
      else if get msg ''type'' = Some (JStr ''alert'') \<and> truthy (get msg ''data'') then
        (let payload = the (get msg ''data'');
             text = (if truthy (get payload ''message'') \<or> truthy (get payload ''reason'')
                        \<or> truthy (get payload ''description'') \<or> is_string payload
                     then (case payload of JStr t \<Rightarrow> Str t | _ \<Rightarrow> Obj addr payload)
                     else Str (stringify payload))
         in case normalizeType (get payload ''type'') of
              Inl e \<Rightarrow> Inl e
            | Inr ty \<Rightarrow>
                Inr (s\<lparr>alerts := dedupe_cap
                       (\<lparr>alert_id = now, alert_type = ty, message = text, timestamp = now\<rparr> # alerts s)\<rparr>))
      else Inr s)"

text \<open>
  The messages of a connection, handled in order: the \<open>n\<close>-th message arrives at time \<open>n\<close>
  and is parsed into a fresh object at address \<open>n\<close>. A handler that throws leaves the
  state as it was.
\<close>

fun useAlerts_run ::
  "(json \<Rightarrow> string) \<Rightarrow> nat \<Rightarrow> json list \<Rightarrow> alerts_state \<Rightarrow> alerts_state" where
  "useAlerts_run stringify n [] s = s"
| "useAlerts_run stringify n (m # ms) s =
     useAlerts_run stringify (Suc n) ms
       (case useAlerts_handleMessage stringify n n m s of Inl e \<Rightarrow> s | Inr s' \<Rightarrow> s')"


section \<open>The market data hook (frontend/lib/hooks/useMarketData.ts)\<close>

record market_state =
  marketData :: "string \<rightharpoonup> (string \<rightharpoonup> json)"
  connected :: bool

text \<open>
  The own properties that an object spread copies. The hook spreads only an update whose
  symbol was resolved, and that is an object (lemma \<open>resolve_symbol_obj\<close>).
\<close>

fun own_props :: "json \<Rightarrow> (string \<rightharpoonup> json)" where
  "own_props (JObj kvs) = map_of kvs"
| "own_props _ = Map.empty"

text \<open>\<^verbatim>\<open>update.symbol || (update.d ? update.s : null)\<close>\<close>

definition resolve_symbol :: "json \<Rightarrow> json option" where
  "resolve_symbol update =
     (if truthy (get update ''symbol'') then get update ''symbol''
      else if truthy (get update ''d'') then get update ''s''
      else Some JNull)"

definition useMarketData_handleMessage ::
  "nat \<Rightarrow> json \<Rightarrow> market_state \<Rightarrow> js_error + market_state" where
  "useMarketData_handleMessage now msg s =
     (if msg = JNull then Inl (TypeError ''Cannot read properties of null'')
      else if get msg ''type'' = Some (JStr ''market_update'') \<and> truthy (get msg ''data'') then
        (let update = the (get msg ''data'');
             symbol = resolve_symbol update
         in if truthy symbol then
              (let key = ToString (the symbol);
                   prev = (case marketData s key of None \<Rightarrow> Map.empty | Some r \<Rightarrow> r)
               in Inr (s\<lparr>marketData := (marketData s)
                         (key \<mapsto> (prev ++ own_props update)(''last_updated'' \<mapsto> JNum (int now)))\<rparr>))
            else Inr s)
      else if get msg ''type'' = Some (JStr ''subscription_status'') then
        Inr (s\<lparr>connected := (get msg ''status'' = Some (JStr ''success''))\<rparr>)
      else Inr s)"


section \<open>The api object and the calls of the panels\<close>

text \<open>
  The members of the exported \<^verbatim>\<open>api\<close> object besides \<^verbatim>\<open>fetch\<close>: the groups, and for each
  method of a group the literal start of the endpoint it passes to \<^verbatim>\<open>api.fetch\<close>.
\<close>

definition api :: "(string \<times> (string \<times> string) list) list" where
  "api =
     [(''auth'',
         [(''getLoginUrl'', ''/auth/login''), (''getStatus'', ''/auth/status''),
          (''autoLogin'', ''/auth/auto-login''), (''refreshToken'', ''/auth/refresh'')]),
      (''market'',
         [(''getSpotPrice'', ''/market/spot/''), (''getIndices'', ''/market/indices''),
          (''getMarketState'', ''/market/state''), (''getHistory'', ''/market/history/''),
          (''scanStocks'', ''/market/stocks/scan''), (''getFnoStocks'', ''/market/fno-stocks''),
          (''scanHighVolume'', ''/market/high-volume-scan''),
          (''bulkOCAnalysis'', ''/market/bulk-oc-analysis''),
          (''getNiftySentiment'', ''/market/nifty-sentiment''),
          (''getLiveTradeSignal'', ''/market/live-trade-signal/''),
          (''getGreeksHeatmap'', ''/market/greeks-heatmap/'')]),
      (''options'',
         [(''getChain'', ''/options/chain/''), (''analyze'', ''/options/analysis/''),
          (''getAdjustments'', ''/options/adjustments/'')])]"

text \<open>\<^verbatim>\<open>api.g.m\<close>: the method, or \<^verbatim>\<open>undefined\<close>.\<close>

definition api_member :: "string \<Rightarrow> string \<Rightarrow> string option" where
  "api_member g m = (case map_of api g of None \<Rightarrow> None | Some ms \<Rightarrow> map_of ms m)"

text \<open>
  A call site is \<^verbatim>\<open>api.fetch(endpoint, ...)\<close> or \<^verbatim>\<open>api.g.m(...)\<close>. The list holds every call
  site of the components and hooks, with the component it stands in. MarketIndices and
  VATScanner come in two versions each (components/MarketIndices.tsx and
  frontend/components/Dashboard.tsx; unnamed/part_001 and unnamed/part_002).
\<close>

datatype call_site = Direct string | Member string string

definition panel_calls :: "(string \<times> call_site) list" where
  "panel_calls =
     [(''GreeksHeatmap'', Member ''market'' ''getGreeksHeatmap''),
      (''LiveTradeSignal'', Member ''market'' ''getLiveTradeSignal''),
      (''RealTimeAlerts'', Member ''market'' ''getMarketState''),
      (''NiftySentimentCards'', Member ''market'' ''getNiftySentiment''),
      (''HighVolumeScanner'', Member ''market'' ''scanHighVolume''),
      (''HighVolumeScanner'', Member ''market'' ''bulkOCAnalysis''),
      (''ActiveStrategy'', Member ''market'' ''getMarketState''),
      (''MarketIndices'', Member ''market'' ''getIndices''),
      (''MarketIndices'', Member ''market'' ''getIndices''),
      (''QuantDashboard'', Member ''market'' ''scanHighVolume''),
      (''StockAnalysis'', Member ''market'' ''scanStocks''),
      (''OptionChainTable'', Member ''options'' ''getChain''),
      (''MCPTradingPanel'', Direct ''/mcp/status''),
      (''MCPTradingPanel'', Direct ''/mcp/call''),
      (''useAuth'', Member ''auth'' ''getStatus''),
      (''useAuth'', Member ''auth'' ''getLoginUrl''),
      (''useAuth'', Member ''auth'' ''autoLogin''),
      (''MarketStateDetector'', Member ''market'' ''getMarketState''),
      (''VATScanner'', Member ''market'' ''scanVAT''),
      (''VATScanner'', Member ''market'' ''scanVAT'')]"

fun resolves :: "call_site \<Rightarrow> bool" where
  "resolves (Direct endpoint) = True"
| "resolves (Member g m) = (api_member g m \<noteq> None)"

fun error_message :: "js_error \<Rightarrow> string" where
  "error_message (Error m) = m"
| "error_message (TypeError m) = m"
| "error_message (SyntaxError m) = m"

text \<open>\<^verbatim>\<open>err.message || fallback\<close>\<close>

definition message_or :: "js_error \<Rightarrow> string \<Rightarrow> string" where
  "message_or err fallback = (if error_message err = [] then fallback else error_message err)"

text \<open>
  VATScanner. \<^verbatim>\<open>fetchVATData\<close> up to its \<^verbatim>\<open>await\<close>: the new state and the endpoint
  requested, if any. Calling \<^verbatim>\<open>undefined\<close> throws a \<^verbatim>\<open>TypeError\<close> inside the \<^verbatim>\<open>try\<close>, so the
  \<^verbatim>\<open>catch\<close> and the \<^verbatim>\<open>finally\<close> run at once. \<^verbatim>\<open>fetchVATData_settled\<close> is the rest, run when
  the promise of a request settles.
\<close>

record vat_state =
  selectedSymbol :: string
  vat_data :: "json option"
  vat_loading :: bool
  vat_error :: "json option"

definition VATScanner_init :: vat_state where
  "VATScanner_init = \<lparr>selectedSymbol = ''NSE:NIFTY50-INDEX'', vat_data = None,
     vat_loading = False, vat_error = None\<rparr>"

definition fetchVATData :: "vat_state \<Rightarrow> vat_state \<times> string option" where
  "fetchVATData s =
     (let s1 = s\<lparr>vat_loading := True, vat_error := None\<rparr> in
      case api_member ''market'' ''scanVAT'' of
        None \<Rightarrow>
          (s1\<lparr>vat_error := Some (JStr (message_or
                   (TypeError ''api.market.scanVAT is not a function'') ''Network error'')),
              vat_loading := False\<rparr>, None)
      | Some endpoint \<Rightarrow> (s1, Some (endpoint @ selectedSymbol s)))"

definition fetchVATData_settled :: "js_error + json \<Rightarrow> vat_state \<Rightarrow> vat_state" where
  "fetchVATData_settled outcome s =
     (case outcome of
        Inl err \<Rightarrow> s\<lparr>vat_error := Some (JStr (message_or err ''Network error'')), vat_loading := False\<rparr>
      | Inr result \<Rightarrow>
          if result = JNull
          then s\<lparr>vat_error := Some (JStr ''Cannot read properties of null''), vat_loading := False\<rparr>
          else if truthy (get result ''success'')
          then s\<lparr>vat_data := Some result, vat_loading := False\<rparr>
          else s\<lparr>vat_error := Some (if truthy (get result ''error'') then the (get result ''error'')
                                      else JStr ''Failed to fetch analysis''),
                 vat_loading := False\<rparr>)"


section \<open>The effects of the panels\<close>

text \<open>
  A panel's \<^verbatim>\<open>useEffect\<close>: its dependency array, what the effect does when it runs, and
  what the cleanup it returns does. An effect invokes a function of the component, starts
  a \<^verbatim>\<open>setInterval\<close> timer for one, or clears that timer. The effect runs when the panel
  mounts and again whenever the value of a dependency has changed; the cleanup runs
  before each of these later runs and when the panel unmounts. An effect with the empty
  dependency array runs at the mount only.
\<close>

datatype effect = Invoke string | SetInterval string nat | ClearInterval

record lifecycle =
  deps :: "string list"
  on_run :: "effect list"
  on_cleanup :: "effect list"

definition MarketIndices_effect :: lifecycle where
  "MarketIndices_effect =
     \<lparr>deps = [],
      on_run = [Invoke ''fetchIndices'', SetInterval ''fetchIndices'' 10000],
      on_cleanup = [ClearInterval]\<rparr>"

definition MarketStateDetector_effect :: lifecycle where
  "MarketStateDetector_effect =
     \<lparr>deps = [],
      on_run = [Invoke ''fetchState'', SetInterval ''fetchState'' 30000],
      on_cleanup = [ClearInterval]\<rparr>"

definition RealTimeAlerts_effect :: lifecycle where
  "RealTimeAlerts_effect =
     \<lparr>deps = [],
      on_run = [Invoke ''fetchAlerts'', SetInterval ''fetchAlerts'' 30000],
      on_cleanup = [ClearInterval]\<rparr>"

definition ActiveStrategy_effect :: lifecycle where
  "ActiveStrategy_effect =
     \<lparr>deps = [],
      on_run = [Invoke ''fetchStrategy'', SetInterval ''fetchStrategy'' 30000],
      on_cleanup = [ClearInterval]\<rparr>"

definition VATScanner_effect :: lifecycle where
  "VATScanner_effect =
     \<lparr>deps = [''selectedSymbol''],
      on_run = [Invoke ''fetchVATData'', SetInterval ''fetchVATData'' 30000],
      on_cleanup = [ClearInterval]\<rparr>"

definition HighVolumeScanner_effect :: lifecycle where
  "HighVolumeScanner_effect =
     \<lparr>deps = [''timeframe''], on_run = [Invoke ''scanStocks''], on_cleanup = []\<rparr>"

definition QuantDashboard_effect :: lifecycle where
  "QuantDashboard_effect =
     \<lparr>deps = [], on_run = [Invoke ''fetchTopStocks''], on_cleanup = []\<rparr>"

text \<open>
  Time in milliseconds after the mount. A timer of period \<open>p\<close> that runs for \<open>dur\<close>
  milliseconds fires \<open>p\<close>, \<open>2p\<close>, ... after its start, before that time is over. No panel
  uses a period of 0, and the model gives such a timer no ticks.
\<close>

definition ticks :: "nat \<Rightarrow> nat \<Rightarrow> nat list" where
  "ticks p dur = (if p = 0 then [] else map (\<lambda>k. k * p) [1 ..< Suc ((dur - 1) div p)])"

text \<open>The calls of one effect that runs at \<open>start\<close> and whose timer is stopped at \<open>stop\<close>.\<close>

fun effect_calls :: "nat \<Rightarrow> nat \<Rightarrow> effect \<Rightarrow> (nat \<times> string) list" where
  "effect_calls start stop (Invoke f) = [(start, f)]"
| "effect_calls start stop (SetInterval f p) = map (\<lambda>t. (start + t, f)) (ticks p (stop - start))"
| "effect_calls start stop ClearInterval = []"

text \<open>
  One run of a panel's effect, from \<open>start\<close> to the cleanup at \<open>finish\<close>: its timer stops
  at the cleanup if the cleanup clears it, and runs on to the horizon otherwise.
\<close>

definition run_calls :: "lifecycle \<Rightarrow> nat \<Rightarrow> nat \<Rightarrow> nat \<Rightarrow> (nat \<times> string) list" where
  "run_calls lc horizon start finish =
     (let stop = (if ClearInterval \<in> set (on_cleanup lc) then finish else horizon)
      in concat (map (effect_calls start stop) (on_run lc)))"

text \<open>
  The runs of an effect of a panel that unmounts at \<open>unmount\<close>, as pairs of start and
  cleanup time: \<open>changes\<close> are the times, increasing and between mount and unmount, at
  which a dependency changed its value.
\<close>

definition runs :: "nat list \<Rightarrow> nat \<Rightarrow> (nat \<times> nat) list" where
  "runs changes unmount = zip (0 # changes) (changes @ [unmount])"

text \<open>
  The calls a mounted panel makes up to the time \<open>horizon\<close>. An effect without
  dependencies has the one run from mount to unmount, whatever else changes.
\<close>

definition calls :: "lifecycle \<Rightarrow> nat list \<Rightarrow> nat \<Rightarrow> nat \<Rightarrow> (nat \<times> string) list" where
  "calls lc changes unmount horizon =
     concat (map (\<lambda>(start, finish). run_calls lc horizon start finish)
                 (runs (if deps lc = [] then [] else changes) unmount))"


section \<open>HighVolumeScanner (in components/NiftySentimentCards.tsx)\<close>

text \<open>
  The state of the component. Of a scan result only the symbols of its \<^verbatim>\<open>top_stocks\<close>
  decide what the component does. \<open>progressInterval\<close> is the running progress timer,
  with the step it adds. A request is a call of a method of the \<^verbatim>\<open>api\<close> object with its
  arguments.
\<close>

datatype phase = Scanning | Results | Analyzing | Analysis

record ScanResult =
  top_stocks :: "string list"

datatype api_request = Request string string "json list"

record hvs_state =
  phase :: phase
  timeframe :: string
  scanResult :: "ScanResult option"
  analysisResult :: "json option"
  hvs_loading :: bool
  hvs_error :: "string option"
  scanProgress :: nat
  progressInterval :: "nat option"

definition HighVolumeScanner_init :: hvs_state where
  "HighVolumeScanner_init =
     \<lparr>phase = Scanning, timeframe = ''15'', scanResult = None, analysisResult = None,
      hvs_loading = True, hvs_error = None, scanProgress = 0, progressInterval = None\<rparr>"

text \<open>
  Each async function is split at its \<^verbatim>\<open>await\<close>: the part that runs at the call, with the
  request it issues, and the parts that run when the request resolves or rejects (the
  \<^verbatim>\<open>try\<close> or \<^verbatim>\<open>catch\<close> branch followed by \<^verbatim>\<open>finally\<close>). Every part returns the new state
  and the requests it issues.
\<close>

definition scanStocks :: "hvs_state \<Rightarrow> hvs_state \<times> api_request list" where
  "scanStocks s =
     (s\<lparr>hvs_loading := True, hvs_error := None, phase := Scanning, scanProgress := 0,
        progressInterval := Some 2\<rparr>,
      [Request ''market'' ''scanHighVolume'' [JStr (timeframe s), JNum 5]])"

definition scanStocks_resolved :: "ScanResult \<Rightarrow> hvs_state \<Rightarrow> hvs_state \<times> api_request list" where
  "scanStocks_resolved result s =
     (s\<lparr>scanResult := Some result, scanProgress := 100, phase := Results,
        progressInterval := None, hvs_loading := False\<rparr>, [])"

definition scanStocks_rejected :: "js_error \<Rightarrow> hvs_state \<Rightarrow> hvs_state \<times> api_request list" where
  "scanStocks_rejected err s =
     (s\<lparr>hvs_error := Some (message_or err ''Failed to scan stocks''),
        progressInterval := None, hvs_loading := False\<rparr>, [])"

definition analyzeOptionChains :: "hvs_state \<Rightarrow> hvs_state \<times> api_request list" where
  "analyzeOptionChains s =
     (case scanResult s of
        None \<Rightarrow> (s, [])
      | Some r \<Rightarrow>
          if top_stocks r = [] then (s, [])
          else (s\<lparr>phase := Analyzing, hvs_error := None, scanProgress := 0,
                   progressInterval := Some 5\<rparr>,
                [Request ''market'' ''bulkOCAnalysis'' [JArr (map JStr (top_stocks r))]]))"

definition analyzeOptionChains_resolved :: "json \<Rightarrow> hvs_state \<Rightarrow> hvs_state \<times> api_request list" where
  "analyzeOptionChains_resolved result s =
     (s\<lparr>analysisResult := Some result, scanProgress := 100, phase := Analysis,
        progressInterval := None\<rparr>, [])"

definition analyzeOptionChains_rejected :: "js_error \<Rightarrow> hvs_state \<Rightarrow> hvs_state \<times> api_request list" where
  "analyzeOptionChains_rejected err s =
     (s\<lparr>hvs_error := Some (message_or err ''Failed to analyze option chains''),
        phase := Results, progressInterval := None\<rparr>, [])"

definition progress_tick :: "hvs_state \<Rightarrow> hvs_state" where
  "progress_tick s =
     (case progressInterval s of
        None \<Rightarrow> s
      | Some d \<Rightarrow> s\<lparr>scanProgress := min (scanProgress s + d) 90\<rparr>)"

text \<open>
  What the component renders, as far as its controls go: a button has a label and the
  handler that a click runs.
\<close>

datatype hvs_action = ScanStocks | AnalyzeOptionChains | ShowResults | SetTimeframe string

datatype 'a control = Button string 'a

text \<open>\<^verbatim>\<open>{error && (<div> <p>{error}</p> <button onClick={scanStocks}>Retry</button> </div>)}\<close>\<close>

definition hvs_error_box :: "hvs_state \<Rightarrow> (string \<times> hvs_action control) option" where
  "hvs_error_box s =
     (case hvs_error s of
        None \<Rightarrow> None
      | Some e \<Rightarrow> if e = [] then None else Some (e, Button ''Retry'' ScanStocks))"

text \<open>
  A click. Choosing another timeframe changes the dependency of the effect, which runs
  \<^verbatim>\<open>scanStocks\<close> again.
\<close>

fun hvs_click :: "hvs_action \<Rightarrow> hvs_state \<Rightarrow> hvs_state \<times> api_request list" where
  "hvs_click ScanStocks s = scanStocks s"
| "hvs_click AnalyzeOptionChains s = analyzeOptionChains s"
| "hvs_click ShowResults s = (s\<lparr>phase := Results\<rparr>, [])"
| "hvs_click (SetTimeframe t) s =
     (if t = timeframe s then (s, []) else scanStocks (s\<lparr>timeframe := t\<rparr>))"


section \<open>OptionChainTable (frontend/components/OptionChainTable.tsx)\<close>

text \<open>
  The value of a field of the response, as the arithmetic of the table sees it:
  \<^verbatim>\<open>undefined\<close> (the field is absent), \<^verbatim>\<open>null\<close>, a boolean, a number, a string, or an array
  or object, which is kept as its string conversion, since that is all the conversion to
  a number looks at. A number is a finite double, given as the rational it stands for, or
  an infinity (what a JSON numeral too large for a double parses to).
\<close>

datatype jsval =
    Undefined | Null | Boolean bool | Number rat | Infinite
  | String string | Object string

fun truthy_val :: "jsval \<Rightarrow> bool" where
  "truthy_val Undefined = False"
| "truthy_val Null = False"
| "truthy_val (Boolean b) = b"
| "truthy_val (Number x) = (x \<noteq> 0)"
| "truthy_val Infinite = True"
| "truthy_val (String s) = (s \<noteq> [])"
| "truthy_val (Object s) = True"

text \<open>
  The conversion to a number that the operator \<^verbatim>\<open>-\<close> applies to its operands. The result
  \<open>None\<close> is NaN or an infinity: with either as an operand the absolute difference is
  an infinity or NaN, and so not below 25. \<open>parse\<close> stands for the conversion of a string
  to a number.
\<close>

fun ToNumber :: "(string \<Rightarrow> rat option) \<Rightarrow> jsval \<Rightarrow> rat option" where
  "ToNumber parse Undefined = None"
| "ToNumber parse Null = Some 0"
| "ToNumber parse (Boolean b) = Some (if b then 1 else 0)"
| "ToNumber parse (Number x) = Some x"
| "ToNumber parse Infinite = None"
| "ToNumber parse (String s) = parse s"
| "ToNumber parse (Object s) = parse s"

text \<open>
  The option chain as the backend sends it, as far as the table's row classification
  reads it: the spot price and the strike of each row. The query is what \<^verbatim>\<open>useApiQuery\<close>
  hands to the component. The rendered table is kept as the spot price and, per row, the
  strike and whether the row is highlighted; the formatting of the numbers and the cells
  of the two legs are left out.
\<close>

record chain_row =
  strike_price :: jsval

record chain =
  spot_price :: jsval
  chain_rows :: "chain_row list"

record query =
  q_data :: "chain option"
  isLoading :: bool
  q_error :: "js_error option"

text \<open>
  \<^verbatim>\<open>Math.abs(strike - (chain?.spot_price || 0)) < 25\<close>. \<open>fsub\<close> stands for the subtraction
  of two finite doubles, which rounds the exact difference to a double.
\<close>

definition isATM ::
  "(rat \<Rightarrow> rat \<Rightarrow> rat) \<Rightarrow> (string \<Rightarrow> rat option) \<Rightarrow> jsval \<Rightarrow> jsval \<Rightarrow> bool" where
  "isATM fsub parse strike spot =
     (case (ToNumber parse strike,
            ToNumber parse (if truthy_val spot then spot else Number 0)) of
        (Some k, Some p) \<Rightarrow> \<bar>fsub k p\<bar> < 25
      | _ \<Rightarrow> False)"

datatype oc_action = Refetch

record row_view =
  shown_strike :: jsval
  atm_highlight :: bool

datatype oc_view =
    OC_Loading
  | OC_Error string "oc_action control"
  | OC_Table jsval "row_view list"

definition OptionChainTable_render ::
  "(rat \<Rightarrow> rat \<Rightarrow> rat) \<Rightarrow> (string \<Rightarrow> rat option) \<Rightarrow> query \<Rightarrow> oc_view" where
  "OptionChainTable_render fsub parse q =
     (if isLoading q \<and> q_data q = None then OC_Loading
      else case q_error q of
        Some e \<Rightarrow> OC_Error (error_message e) (Button ''Retry'' Refetch)
      | None \<Rightarrow>
          (let rows = (case q_data q of None \<Rightarrow> [] | Some c \<Rightarrow> chain_rows c);
               spot = (case q_data q of None \<Rightarrow> Undefined | Some c \<Rightarrow> spot_price c)
           in OC_Table spot
                (map (\<lambda>row. \<lparr>shown_strike = strike_price row,
                               atm_highlight = isATM fsub parse (strike_price row) spot\<rparr>) rows)))"


section \<open>MarketStateDetector (in unnamed/part_003)\<close>






section \<open>Concrete scenarios\<close>

text \<open>
  A connected client whose socket, and every socket opened by a retry, closes again: the
  close of socket \<open>k\<close> is followed by the retry timer.
\<close>

definition retry_trace :: "string event list" where
  "retry_trace =
     [SockClose 0, TimerFire, SockClose 1, TimerFire, SockClose 2, TimerFire,
      SockClose 3, TimerFire, SockClose 4, TimerFire, SockClose 5, TimerFire, SockClose 6]"

text \<open>The WebSocket message \<^verbatim>\<open>{"type": "alert", "data": {"message": "X"}}\<close>.\<close>

definition alert_X :: json where
  "alert_X = JObj [(''type'', JStr ''alert''), (''data'', JObj [(''message'', JStr ''X'')])]"

text \<open>Two market updates, one naming its symbol and one naming none.\<close>

definition update_SBIN :: json where
  "update_SBIN = JObj [(''type'', JStr ''market_update''),
     (''data'', JObj [(''symbol'', JStr ''NSE:SBIN-EQ''), (''ltp'', JNum 500)])]"

definition update_anonymous :: json where
  "update_anonymous = JObj [(''type'', JStr ''market_update''), (''data'', JObj [(''ltp'', JNum 500)])]"

definition market_state_0 :: market_state where
  "market_state_0 = \<lparr>marketData = [''NSE:NIFTY50-INDEX'' \<mapsto> [''ltp'' \<mapsto> JNum 22500]],
                      connected = True\<rparr>"


text \<open>
  A scan found one stock; the user starts the option chain analysis, and its request
  fails.
\<close>

definition hvs_after_scan :: hvs_state where
  "hvs_after_scan =
     fst (scanStocks_resolved \<lparr>top_stocks = [''NSE:SBIN-EQ'']\<rparr>
            (fst (scanStocks HighVolumeScanner_init)))"

definition hvs_analysis_failed :: hvs_state where
  "hvs_analysis_failed =
     fst (analyzeOptionChains_rejected (Error ''Request failed with status 500'')
            (fst (analyzeOptionChains hvs_after_scan)))"



text \<open>
  The two parameters for these chains: the exact difference, and a conversion of strings
  that is never asked (the chains hold numbers only).
\<close>

definition exact_sub :: "rat \<Rightarrow> rat \<Rightarrow> rat" where
  "exact_sub x y = x - y"

definition no_numeral :: "string \<Rightarrow> rat option" where
  "no_numeral s = None"




section \<open>Verification: the WebSocket client\<close>

lemmas ws_defs = WSClient_def connect_def send_def close_def onopen_def onclose_def
  timer_fire_def attemptReconnect_def maxReconnectAttempts_def reconnectInterval_def
  ws_is_open_def

lemma connect_attempts [simp]: "reconnectAttempts (connect s) = reconnectAttempts s"
  by (simp add: connect_def Let_def)

lemma connect_scheduled [simp]: "scheduled (connect s) = scheduled s"
  by (simp add: connect_def Let_def)

lemma connect_wire [simp]: "wire (connect s) = wire s"
  by (simp add: connect_def Let_def)

lemma connect_timers [simp]: "timers (connect s) = timers s"
  by (simp add: connect_def Let_def)

lemma connect_calls_connect [simp]: "connect_calls (connect s) = connect_calls s + 1"
  by (simp add: connect_def Let_def)

lemma step_attempts_le:
  "reconnectAttempts s \<le> maxReconnectAttempts \<Longrightarrow>
   reconnectAttempts (step f e s) \<le> maxReconnectAttempts"
  by (cases e)
     (auto simp: send_def close_def onopen_def onclose_def timer_fire_def attemptReconnect_def
           split: option.splits list.splits)

lemma run_attempts_le:
  "reconnectAttempts s \<le> maxReconnectAttempts \<Longrightarrow>
   reconnectAttempts (run f es s) \<le> maxReconnectAttempts"
  by (induction es arbitrary: s) (auto simp: step_attempts_le)

text \<open>
  Each scheduled retry uses up one unit of the budget, and nothing but an open event
  gives any back.
\<close>

lemma step_budget: "\<not> is_open_event e \<Longrightarrow> budget (step f e s) = budget s"
  by (cases e)
     (auto simp: send_def close_def onclose_def timer_fire_def attemptReconnect_def budget_def
           split: option.splits list.splits)

lemma run_budget: "\<not> list_ex is_open_event es \<Longrightarrow> budget (run f es s) = budget s"
  by (induction es arbitrary: s) (auto simp: step_budget)

lemma attemptReconnect_funpow:
  "reconnectAttempts s \<le> maxReconnectAttempts \<Longrightarrow>
   scheduled ((attemptReconnect ^^ k) s) =
     scheduled s @ replicate (min k (maxReconnectAttempts - reconnectAttempts s)) reconnectInterval
   \<and> reconnectAttempts ((attemptReconnect ^^ k) s) =
       min (reconnectAttempts s + k) maxReconnectAttempts"
proof (induction k)
  case 0
  then show ?case by simp
next
  case (Suc k)
  then show ?case
    by (auto simp: attemptReconnect_def min_def replicate_append_same)
qed

text \<open>
  C1. Reconnection is bounded. In every state that a client reaches from its
  construction, by any sequence of method calls and browser events, the counter
  \<open>reconnectAttempts\<close> is at most \<open>maxReconnectAttempts\<close>, which is 5 (and it is a natural
  number, so at least 0). From any state, a sequence of events without an open event
  schedules at most \<open>5 - reconnectAttempts\<close> further retries, so at most 5. The open
  event of a connecting socket resets the counter to 0, and from a counter of 0 the first
  5 of any \<open>k\<close> consecutive runs of the close handler's \<open>attemptReconnect\<close> schedule a
  retry each and the later ones none.
\<close>

theorem reconnect_bounded:
  "reconnectAttempts (run f es (WSClient u)) \<le> maxReconnectAttempts
   \<and> maxReconnectAttempts = 5
   \<and> (\<not> list_ex is_open_event es' \<longrightarrow>
        length (scheduled (run f es' s))
          \<le> length (scheduled s) + (maxReconnectAttempts - reconnectAttempts s))
   \<and> (i < length (sockets s) \<and> sockets s ! i = CONNECTING \<longrightarrow>
        reconnectAttempts (step f (SockOpen i) s) = 0)
   \<and> (reconnectAttempts s = 0 \<longrightarrow>
        scheduled ((attemptReconnect ^^ k) s) =
          scheduled s @ replicate (min k maxReconnectAttempts) reconnectInterval)"
proof (intro conjI impI)
  show "reconnectAttempts (run f es (WSClient u)) \<le> maxReconnectAttempts"
    by (rule run_attempts_le) (simp add: WSClient_def)
  show "maxReconnectAttempts = 5"
    by (simp add: maxReconnectAttempts_def)
next
  assume "\<not> list_ex is_open_event es'"
  then have "budget (run f es' s) = budget s"
    by (rule run_budget)
  then show "length (scheduled (run f es' s))
      \<le> length (scheduled s) + (maxReconnectAttempts - reconnectAttempts s)"
    by (simp add: budget_def)
next
  assume "i < length (sockets s) \<and> sockets s ! i = CONNECTING"
  then show "reconnectAttempts (step f (SockOpen i) s) = 0"
    by (simp add: onopen_def)
next
  assume "reconnectAttempts s = 0"
  then show "scheduled ((attemptReconnect ^^ k) s) =
      scheduled s @ replicate (min k maxReconnectAttempts) reconnectInterval"
    using attemptReconnect_funpow [of s k] by simp
qed

text \<open>
  The theorem at a client that connected and whose sockets then close one after the
  other: the trace has no open event, exactly five retries are scheduled, and the open
  event of the first socket would have reset the counter.
\<close>

theorem reconnect_bounded_witness:
  "\<not> list_ex is_open_event retry_trace
   \<and> length (scheduled (run id retry_trace (connect (WSClient True)))) \<le> 0 + (5 - 0)
   \<and> scheduled (run id retry_trace (connect (WSClient True))) = [3000, 3000, 3000, 3000, 3000]
   \<and> reconnectAttempts (run id retry_trace (connect (WSClient True))) = 5
   \<and> sockets (connect (WSClient True)) ! 0 = CONNECTING
   \<and> reconnectAttempts (step id (SockOpen 0) (connect (WSClient True))) = 0
   \<and> scheduled ((attemptReconnect ^^ 7) (connect (WSClient True))) = [3000, 3000, 3000, 3000, 3000]"
proof -
  have no_open: "\<not> list_ex is_open_event retry_trace"
    by (simp add: retry_trace_def)
  have s0: "sockets (connect (WSClient True)) = [CONNECTING]"
    "reconnectAttempts (connect (WSClient True)) = 0"
    "scheduled (connect (WSClient True)) = []"
    by (simp_all add: ws_defs Let_def)
  have ev: "scheduled (run id retry_trace (connect (WSClient True))) = [3000, 3000, 3000, 3000, 3000]"
    "reconnectAttempts (run id retry_trace (connect (WSClient True))) = 5"
    unfolding retry_trace_def by (simp_all add: ws_defs Let_def)
  have five: "replicate 5 (3000::nat) = [3000, 3000, 3000, 3000, 3000]"
    by (simp add: numeral_eq_Suc)
  from reconnect_bounded [of id "[Connect]" True retry_trace "connect (WSClient True)" 0 7]
  show ?thesis
    using no_open s0 ev five
    by (simp add: maxReconnectAttempts_def reconnectInterval_def)
qed

lemma step_const:
  "set (scheduled s) \<subseteq> {reconnectInterval} \<Longrightarrow>
   set (scheduled (step f e s)) \<subseteq> {reconnectInterval}"
  by (cases e)
     (auto simp: send_def close_def onopen_def onclose_def timer_fire_def attemptReconnect_def
           split: option.splits list.splits if_splits)

lemma run_const:
  "set (scheduled s) \<subseteq> {reconnectInterval} \<Longrightarrow>
   set (scheduled (run f es s)) \<subseteq> {reconnectInterval}"
proof (induction es arbitrary: s)
  case Nil
  then show ?case by simp
next
  case (Cons e es)
  from Cons.prems have "set (scheduled (step f e s)) \<subseteq> {reconnectInterval}"
    by (rule step_const)
  then show ?case using Cons.IH by simp
qed

text \<open>
  C2, as the code has it. The delay before every retry is the constant
  \<open>reconnectInterval\<close> of 3000 ms: whatever happens to a client, the delays it has passed
  to \<^verbatim>\<open>setTimeout\<close> are all equal to it. The wait between retries does not grow.
\<close>

theorem reconnect_delay_constant:
  "scheduled (run f es (WSClient u)) =
     replicate (length (scheduled (run f es (WSClient u)))) reconnectInterval
   \<and> reconnectInterval = 3000"
proof
  have "set (scheduled (run f es (WSClient u))) \<subseteq> {reconnectInterval}"
    by (rule run_const) (simp add: WSClient_def)
  then have "\<forall>d\<in>set (scheduled (run f es (WSClient u))). d = reconnectInterval"
    by blast
  then show "scheduled (run f es (WSClient u)) =
     replicate (length (scheduled (run f es (WSClient u)))) reconnectInterval"
    by (simp add: replicate_length_same)
  show "reconnectInterval = 3000"
    by (simp add: reconnectInterval_def)
qed

text \<open>
  C2 as stated fails: after two consecutive failed connections the delay before the
  second retry is not greater than the delay before the first; both are 3000 ms.
\<close>

theorem reconnect_backoff_counterexample:
  "\<not> (scheduled (run id [Connect, SockClose 0, TimerFire, SockClose 1] (WSClient True)) ! 0
       < scheduled (run id [Connect, SockClose 0, TimerFire, SockClose 1] (WSClient True)) ! 1)
   \<and> scheduled (run id [Connect, SockClose 0, TimerFire, SockClose 1] (WSClient True))
       = [3000, 3000]"
  by (simp add: ws_defs Let_def)

text \<open>
  C8. \<^verbatim>\<open>send\<close> on a client whose socket is \<^verbatim>\<open>null\<close> or not OPEN does exactly what
  \<^verbatim>\<open>connect\<close> does: the resulting state does not depend on the payload, so the payload is
  kept nowhere, nothing is put on the wire, no timer is set, and one more connection is
  attempted. On an OPEN socket the serialised payload is handed to that socket and
  nothing else changes. Whenever \<^verbatim>\<open>send\<close> puts anything on the wire, the socket was OPEN
  and the frame is the serialised payload.
\<close>

theorem send_only_when_open:
  "((ws s = None \<or> (\<exists>i. ws s = Some i \<and> i < length (sockets s) \<and> sockets s ! i \<noteq> OPEN)) \<longrightarrow>
      send f d s = connect s \<and> wire (send f d s) = wire s \<and> timers (send f d s) = timers s
      \<and> connect_calls (send f d s) = connect_calls s + 1)
   \<and> (ws s = Some i \<and> i < length (sockets s) \<and> sockets s ! i = OPEN \<longrightarrow>
      send f d s = s\<lparr>wire := wire s @ [(i, f d)]\<rparr>)
   \<and> (wire (send f d s) \<noteq> wire s \<longrightarrow>
      (\<exists>i. ws s = Some i \<and> i < length (sockets s) \<and> sockets s ! i = OPEN)
      \<and> wire (send f d s) = wire s @ [(the (ws s), f d)])"
  by (auto simp: send_def ws_is_open_def split: option.splits)

text \<open>
  The theorem at a fresh client (no socket), at a client whose socket is still
  connecting, and at a client whose socket has opened.
\<close>

theorem send_only_when_open_witness:
  "ws (WSClient True) = None
   \<and> send id ''subscribe'' (WSClient True) = connect (WSClient True)
   \<and> wire (send id ''subscribe'' (WSClient True)) = []
   \<and> ws (connect (WSClient True)) = Some 0 \<and> sockets (connect (WSClient True)) ! 0 \<noteq> OPEN
   \<and> wire (send id ''subscribe'' (connect (WSClient True))) = []
   \<and> connect_calls (send id ''subscribe'' (connect (WSClient True))) = 2
   \<and> sockets (onopen 0 (connect (WSClient True))) ! 0 = OPEN
   \<and> wire (send id ''subscribe'' (onopen 0 (connect (WSClient True)))) = [(0, ''subscribe'')]"
proof -
  have a: "ws (WSClient True) = None" "wire (WSClient True) = []"
    "connect_calls (WSClient True) = 0"
    by (simp_all add: WSClient_def)
  have b: "ws (connect (WSClient True)) = Some 0" "sockets (connect (WSClient True)) = [CONNECTING]"
    "connect_calls (connect (WSClient True)) = 1"
    by (simp_all add: ws_defs Let_def)
  have c: "ws (onopen 0 (connect (WSClient True))) = Some 0"
    "sockets (onopen 0 (connect (WSClient True))) = [OPEN]"
    "wire (onopen 0 (connect (WSClient True))) = []"
    by (simp_all add: ws_defs Let_def)
  have t1: "send id ''subscribe'' (WSClient True) = connect (WSClient True)
      \<and> wire (send id ''subscribe'' (WSClient True)) = wire (WSClient True)"
    using send_only_when_open [of "WSClient True" id "''subscribe''" 0] a(1) by blast
  have "\<exists>i. ws (connect (WSClient True)) = Some i \<and> i < length (sockets (connect (WSClient True)))
      \<and> sockets (connect (WSClient True)) ! i \<noteq> OPEN"
    using b by simp
  then have t2: "wire (send id ''subscribe'' (connect (WSClient True))) = wire (connect (WSClient True))
      \<and> connect_calls (send id ''subscribe'' (connect (WSClient True)))
          = connect_calls (connect (WSClient True)) + 1"
    using send_only_when_open [of "connect (WSClient True)" id "''subscribe''" 0] by blast
  have "ws (onopen 0 (connect (WSClient True))) = Some 0
      \<and> 0 < length (sockets (onopen 0 (connect (WSClient True))))
      \<and> sockets (onopen 0 (connect (WSClient True))) ! 0 = OPEN"
    using c by simp
  then have t3: "send id ''subscribe'' (onopen 0 (connect (WSClient True)))
      = (onopen 0 (connect (WSClient True)))
          \<lparr>wire := wire (onopen 0 (connect (WSClient True))) @ [(0, id ''subscribe'')]\<rparr>"
    using send_only_when_open [of "onopen 0 (connect (WSClient True))" id "''subscribe''" 0]
    by blast
  show ?thesis
    by (simp add: t1 t2 t3 a b c)
qed


section \<open>Verification: the REST wrapper\<close>

text \<open>
  C3, as the code has it. When the request resolves to a response, \<^verbatim>\<open>api.fetch\<close> returns
  a value exactly when the response is ok and its body is JSON, and the value is the
  parsed body. When the response is not ok, and its body is not the JSON \<^verbatim>\<open>null\<close>, it
  throws an \<^verbatim>\<open>Error\<close>: the message is the string conversion of the body's \<^verbatim>\<open>detail\<close> when
  that is truthy, and \<^verbatim>\<open>Request failed with status N\<close> otherwise, that is when the body
  is not JSON, has no \<^verbatim>\<open>detail\<close>, or has a falsy one (the empty string, 0, false, null).
\<close>

theorem api_fetch_outcome:
  assumes net: "net (base @ endpoint)
      (options\<lparr>headers := [''Content-Type'' \<mapsto> ''application/json''] ++ headers options\<rparr>)
      = Resolved r"
  shows "(ok r \<and> json_body r = Some v \<longrightarrow> api_fetch base net endpoint options = Inr v)
       \<and> (api_fetch base net endpoint options = Inr v \<longrightarrow> ok r \<and> json_body r = Some v)
       \<and> (\<not> ok r \<and> json_body r \<noteq> Some JNull \<and> truthy (response_detail r) \<longrightarrow>
            api_fetch base net endpoint options = Inl (Error (ToString (the (response_detail r)))))
       \<and> (\<not> ok r \<and> json_body r \<noteq> Some JNull \<and> \<not> truthy (response_detail r) \<longrightarrow>
            api_fetch base net endpoint options =
              Inl (Error (''Request failed with status '' @ show_nat (status r))))"
  using net
  by (auto simp: api_fetch_def response_detail_def Let_def split: option.splits)

text \<open>
  The theorem at an ok response, at a 401 with a \<^verbatim>\<open>detail\<close>, and at a 502 whose body is
  not JSON.
\<close>

theorem api_fetch_outcome_witness:
  "api_fetch ''http://localhost:8000/api/v1''
        (\<lambda>url req. Resolved \<lparr>ok = True, status = 200,
                               json_body = Some (JObj [(''success'', JBool True)])\<rparr>)
        ''/market/indices'' no_options = Inr (JObj [(''success'', JBool True)])
   \<and> api_fetch ''http://localhost:8000/api/v1''
        (\<lambda>url req. Resolved \<lparr>ok = False, status = 401,
                               json_body = Some (JObj [(''detail'', JStr ''Not authenticated'')])\<rparr>)
        ''/market/indices'' no_options = Inl (Error ''Not authenticated'')
   \<and> api_fetch ''http://localhost:8000/api/v1''
        (\<lambda>url req. Resolved \<lparr>ok = False, status = 502, json_body = None\<rparr>)
        ''/market/indices'' no_options = Inl (Error ''Request failed with status 502'')"
proof -
  let ?b = "''http://localhost:8000/api/v1''" and ?e = "''/market/indices''"
  let ?r1 = "\<lparr>ok = True, status = 200, json_body = Some (JObj [(''success'', JBool True)])\<rparr>"
  let ?r2 = "\<lparr>ok = False, status = 401,
              json_body = Some (JObj [(''detail'', JStr ''Not authenticated'')])\<rparr>"
  let ?r3 = "\<lparr>ok = False, status = 502, json_body = None\<rparr>"
  have s: "show_nat 502 = ''502''"
    by (simp add: show_nat.simps)
  from api_fetch_outcome [of "\<lambda>url req. Resolved ?r1" ?b ?e no_options ?r1
                             "JObj [(''success'', JBool True)]"]
       api_fetch_outcome [of "\<lambda>url req. Resolved ?r2" ?b ?e no_options ?r2 JNull]
       api_fetch_outcome [of "\<lambda>url req. Resolved ?r3" ?b ?e no_options ?r3 JNull]
  show ?thesis
    by (simp add: response_detail_def s)
qed

text \<open>
  C3 as stated fails: a 404 whose body is \<^verbatim>\<open>{"detail": ""}\<close> has a \<^verbatim>\<open>detail\<close> field, present
  and parsed, yet the message thrown is not that field but the status text.
\<close>

theorem api_fetch_detail_counterexample:
  "get (JObj [(''detail'', JStr [])]) ''detail'' = Some (JStr [])
   \<and> api_fetch ''http://localhost:8000/api/v1''
        (\<lambda>url req. Resolved \<lparr>ok = False, status = 404,
                               json_body = Some (JObj [(''detail'', JStr [])])\<rparr>)
        ''/market/state'' no_options
      = Inl (Error ''Request failed with status 404'')
   \<and> api_fetch ''http://localhost:8000/api/v1''
        (\<lambda>url req. Resolved \<lparr>ok = False, status = 404,
                               json_body = Some (JObj [(''detail'', JStr [])])\<rparr>)
        ''/market/state'' no_options
      \<noteq> Inl (Error [])"
  by (simp add: api_fetch_def Let_def show_nat.simps)


section \<open>Verification: the market data hook\<close>

lemma truthy_get_obj: "truthy (get u k) \<Longrightarrow> \<exists>kvs. u = JObj kvs"
  by (cases u) auto

lemma resolve_symbol_obj: "truthy (resolve_symbol u) \<Longrightarrow> \<exists>kvs. u = JObj kvs"
  by (auto simp: resolve_symbol_def split: if_splits dest: truthy_get_obj)

text \<open>
  C10. Let a message of type \<^verbatim>\<open>market_update\<close> carry the truthy \<^verbatim>\<open>data\<close> \<open>update\<close>. If a
  symbol is resolved from the update, the handler returns a state in which only the
  entry of that symbol differs: every other entry of \<open>marketData\<close> and the \<open>connected\<close>
  flag are as before, and the entry of the symbol has the clock as \<^verbatim>\<open>last_updated\<close> and,
  for every other field, the update's value if the update has the field and the previous
  entry's value (if any) otherwise. If no symbol is resolved, the state is unchanged.
\<close>

theorem market_update_frame:
  assumes ty: "get msg ''type'' = Some (JStr ''market_update'')"
    and dat: "get msg ''data'' = Some update" "truthy (Some update)"
  shows "(truthy (resolve_symbol update) \<longrightarrow>
           (\<exists>s' sym kvs. useMarketData_handleMessage now msg s = Inr s'
              \<and> resolve_symbol update = Some sym \<and> update = JObj kvs
              \<and> connected s' = connected s
              \<and> (\<forall>k. k \<noteq> ToString sym \<longrightarrow> marketData s' k = marketData s k)
              \<and> (\<exists>r. marketData s' (ToString sym) = Some r
                    \<and> r ''last_updated'' = Some (JNum (int now))
                    \<and> (\<forall>f. f \<noteq> ''last_updated'' \<longrightarrow>
                          r f = (case map_of kvs f of
                                   Some v \<Rightarrow> Some v
                                 | None \<Rightarrow> (case marketData s (ToString sym) of
                                              None \<Rightarrow> None | Some p \<Rightarrow> p f))))))
       \<and> (\<not> truthy (resolve_symbol update) \<longrightarrow>
             useMarketData_handleMessage now msg s = Inr s)"
proof (intro conjI impI)
  have nn: "msg \<noteq> JNull"
    using ty by auto
  {
    assume t: "truthy (resolve_symbol update)"
    then obtain kvs where u: "update = JObj kvs"
      using resolve_symbol_obj by blast
    from t obtain sym where sym: "resolve_symbol update = Some sym"
      by (cases "resolve_symbol update") auto
    show "\<exists>s' sym kvs. useMarketData_handleMessage now msg s = Inr s'
              \<and> resolve_symbol update = Some sym \<and> update = JObj kvs
              \<and> connected s' = connected s
              \<and> (\<forall>k. k \<noteq> ToString sym \<longrightarrow> marketData s' k = marketData s k)
              \<and> (\<exists>r. marketData s' (ToString sym) = Some r
                    \<and> r ''last_updated'' = Some (JNum (int now))
                    \<and> (\<forall>f. f \<noteq> ''last_updated'' \<longrightarrow>
                          r f = (case map_of kvs f of
                                   Some v \<Rightarrow> Some v
                                 | None \<Rightarrow> (case marketData s (ToString sym) of
                                              None \<Rightarrow> None | Some p \<Rightarrow> p f))))"
      using nn ty dat t sym u
      by (auto simp: useMarketData_handleMessage_def Let_def map_add_def split: option.splits)
  }
  {
    assume "\<not> truthy (resolve_symbol update)"
    then show "useMarketData_handleMessage now msg s = Inr s"
      using nn ty dat by (simp add: useMarketData_handleMessage_def Let_def)
  }
qed

text \<open>
  The theorem at an update for \<^verbatim>\<open>NSE:SBIN-EQ\<close>, which leaves the entry of the index alone,
  and at an update that names no symbol.
\<close>

theorem market_update_frame_witness:
  "truthy (resolve_symbol (JObj [(''symbol'', JStr ''NSE:SBIN-EQ''), (''ltp'', JNum 500)]))
   \<and> (\<exists>s' sym kvs.
         useMarketData_handleMessage 1000 update_SBIN market_state_0 = Inr s'
         \<and> resolve_symbol (JObj [(''symbol'', JStr ''NSE:SBIN-EQ''), (''ltp'', JNum 500)]) = Some sym
         \<and> JObj [(''symbol'', JStr ''NSE:SBIN-EQ''), (''ltp'', JNum 500)] = JObj kvs
         \<and> connected s' = connected market_state_0
         \<and> (\<forall>k. k \<noteq> ToString sym \<longrightarrow> marketData s' k = marketData market_state_0 k)
         \<and> (\<exists>r. marketData s' (ToString sym) = Some r
               \<and> r ''last_updated'' = Some (JNum (int 1000))
               \<and> (\<forall>f. f \<noteq> ''last_updated'' \<longrightarrow>
                     r f = (case map_of kvs f of
                              Some v \<Rightarrow> Some v
                            | None \<Rightarrow> (case marketData market_state_0 (ToString sym) of
                                         None \<Rightarrow> None | Some p \<Rightarrow> p f)))))
   \<and> \<not> truthy (resolve_symbol (JObj [(''ltp'', JNum 500)]))
   \<and> useMarketData_handleMessage 1000 update_anonymous market_state_0 = Inr market_state_0"
proof -
  let ?u = "JObj [(''symbol'', JStr ''NSE:SBIN-EQ''), (''ltp'', JNum 500)]"
  let ?v = "JObj [(''ltp'', JNum 500)]"
  have gu: "get update_SBIN ''type'' = Some (JStr ''market_update'')"
    "get update_SBIN ''data'' = Some ?u" "truthy (Some ?u)"
    by (simp_all add: update_SBIN_def)
  have gv: "get update_anonymous ''type'' = Some (JStr ''market_update'')"
    "get update_anonymous ''data'' = Some ?v" "truthy (Some ?v)"
    by (simp_all add: update_anonymous_def)
  have tu: "truthy (resolve_symbol ?u)"
    by (simp add: resolve_symbol_def)
  have tv: "\<not> truthy (resolve_symbol ?v)"
    by (simp add: resolve_symbol_def)
  note named = market_update_frame [OF gu, of 1000 market_state_0, THEN conjunct1, THEN mp, OF tu]
  note anon = market_update_frame [OF gv, of 1000 market_state_0, THEN conjunct2, THEN mp, OF tv]
  show ?thesis
    by (intro conjI tu tv named anon)
qed

text \<open>
  The same update evaluated: the entry of \<^verbatim>\<open>NSE:SBIN-EQ\<close> is created with the update's
  fields and the clock, and the entry of the index is the one from before.
\<close>

lemma market_update_example:
  "\<exists>s'. useMarketData_handleMessage 1000 update_SBIN market_state_0 = Inr s'
     \<and> marketData s' ''NSE:NIFTY50-INDEX'' = Some [''ltp'' \<mapsto> JNum 22500]
     \<and> marketData s' ''NSE:SBIN-EQ''
         = Some [''symbol'' \<mapsto> JStr ''NSE:SBIN-EQ'', ''ltp'' \<mapsto> JNum 500,
                 ''last_updated'' \<mapsto> JNum 1000]"
  by (simp add: useMarketData_handleMessage_def update_SBIN_def market_state_0_def
        resolve_symbol_def Let_def fun_eq_iff)


section \<open>Verification: the alerts list\<close>

lemma dedupe_cap_length: "length (dedupe_cap xs) \<le> 5"
  by (simp add: dedupe_cap_def Let_def)

lemma strict_eq_refl [simp]: "strict_eq m m"
  by (cases m) auto

lemma dedupe_cap_newest_first: "\<exists>rest. dedupe_cap (a # xs) = a # rest"
  by (simp add: dedupe_cap_def Let_def)

text \<open>
  What the updater does guarantee: no alert of the list is \<^verbatim>\<open>===\<close> to a later one, and
  when all messages are strings no two alerts have the same message.
\<close>

lemma findIndex_first:
  "findIndex P xs = int i \<Longrightarrow> i < length xs \<and> P (xs ! i) \<and> (\<forall>k<i. \<not> P (xs ! k))"
proof (induction xs arbitrary: i)
  case Nil
  then show ?case by simp
next
  case (Cons x xs)
  show ?case
  proof (cases "P x")
    case True
    with Cons.prems show ?thesis by simp
  next
    case False
    with Cons.prems have r: "\<not> findIndex P xs < 0" "findIndex P xs + 1 = int i"
      by (auto simp: Let_def split: if_splits)
    then obtain j where j: "i = Suc j" "findIndex P xs = int j"
      by (cases i) auto
    from Cons.IH [OF j(2)] False j(1) show ?thesis
      by (auto simp: less_Suc_eq_0_disj)
  qed
qed

lemma enumerate_filter:
  "map snd (filter Q (enumerate 0 xs)) =
     map ((!) xs) (filter (\<lambda>i. Q (i, xs ! i)) [0..<length xs])"
proof -
  have "enumerate 0 xs = enumerate 0 (map ((!) xs) [0..<length xs])"
    by (simp add: map_nth)
  also have "\<dots> = map (\<lambda>k. (k, xs ! k)) [0..<length xs]"
    by (rule enumerate_map_upt)
  finally show ?thesis
    by (simp add: filter_map comp_def)
qed

lemma dedupe_cap_distinct:
  "sorted_wrt (\<lambda>x y. \<not> strict_eq (message x) (message y)) (dedupe_cap xs)"
proof -
  let ?keep = "\<lambda>i. int i = findIndex (\<lambda>a. strict_eq (message a) (message (xs ! i))) xs"
  let ?is = "filter ?keep [0..<length xs]"
  have lt: "sorted_wrt (<) ?is"
    by (simp add: sorted_wrt_filter)
  have "sorted_wrt (\<lambda>i j. \<not> strict_eq (message (xs ! i)) (message (xs ! j))) ?is"
  proof (rule sorted_wrt_mono_rel [OF _ lt])
    fix i j
    assume "i \<in> set ?is" "j \<in> set ?is" "i < j"
    then have "findIndex (\<lambda>a. strict_eq (message a) (message (xs ! j))) xs = int j"
      by simp
    from findIndex_first [OF this] \<open>i < j\<close>
    show "\<not> strict_eq (message (xs ! i)) (message (xs ! j))"
      by blast
  qed
  then have "sorted_wrt (\<lambda>x y. \<not> strict_eq (message x) (message y)) (map ((!) xs) ?is)"
    by (simp add: sorted_wrt_map)
  then show ?thesis
    by (simp add: dedupe_cap_def Let_def enumerate_filter sorted_wrt_take)
qed


lemma set_dedupe_cap: "set (dedupe_cap xs) \<subseteq> set xs"
proof -
  have "set (dedupe_cap xs) \<subseteq> snd ` set (enumerate 0 xs)"
    by (auto simp: dedupe_cap_def Let_def dest!: in_set_takeD)
  also have "\<dots> \<subseteq> set xs"
    by (auto simp: in_set_enumerate_eq)
  finally show ?thesis .
qed

lemma sorted_wrt_distinct_map:
  "sorted_wrt (\<lambda>x y. f x \<noteq> f y) ys \<Longrightarrow> distinct (map f ys)"
  by (induction ys) auto

lemma dedupe_cap_strings_distinct:
  assumes "\<forall>a\<in>set xs. \<exists>t. message a = Str t"
  shows "distinct (map message (dedupe_cap xs))"
proof (rule sorted_wrt_distinct_map)
  have str: "\<And>x. x \<in> set (dedupe_cap xs) \<Longrightarrow> \<exists>t. message x = Str t"
    using assms set_dedupe_cap by blast
  show "sorted_wrt (\<lambda>x y. message x \<noteq> message y) (dedupe_cap xs)"
  proof (rule sorted_wrt_mono_rel [OF _ dedupe_cap_distinct])
    fix x y
    assume "x \<in> set (dedupe_cap xs)" "y \<in> set (dedupe_cap xs)"
      and ne: "\<not> strict_eq (message x) (message y)"
    then obtain s t where "message x = Str s" "message y = Str t"
      using str by blast
    with ne show "message x \<noteq> message y"
      by auto
  qed
qed

text \<open>
  C9, at the failing input. The alert \<^verbatim>\<open>{"type": "alert", "data": {"message": "X"}}\<close>
  arrives twice. Its payload has a truthy \<^verbatim>\<open>message\<close>, so the hook stores the payload
  object itself as the alert's message, and the two payloads are different objects:
  \<^verbatim>\<open>===\<close> tells them apart and both alerts stay in the list, with the same content.
  (The cap of 5 and the newest alert in front hold by the lemmas above.)
\<close>

theorem useAlerts_duplicate_messages:
  "alerts (useAlerts_run stringify 0 [alert_X, alert_X] useAlerts_init) =
     [\<lparr>alert_id = 1, alert_type = Info, message = Obj 1 (JObj [(''message'', JStr ''X'')]),
        timestamp = 1\<rparr>,
      \<lparr>alert_id = 0, alert_type = Info, message = Obj 0 (JObj [(''message'', JStr ''X'')]),
        timestamp = 0\<rparr>]
   \<and> map (content \<circ> message) (alerts (useAlerts_run stringify 0 [alert_X, alert_X] useAlerts_init))
       = [JObj [(''message'', JStr ''X'')], JObj [(''message'', JStr ''X'')]]"
  by (simp add: alert_X_def useAlerts_init_def useAlerts_handleMessage_def normalizeType_def
        toLowerCase_def dedupe_cap_def Let_def)

section \<open>Verification: the calls of the panels\<close>

text \<open>
  C6, at the failing input. Of all the call sites, the one that does not resolve to a
  member of the \<^verbatim>\<open>api\<close> object is VATScanner's \<^verbatim>\<open>api.market.scanVAT\<close> (in both versions
  of the panel): the member is
  \<^verbatim>\<open>undefined\<close>, and \<^verbatim>\<open>fetchVATData\<close> on the freshly mounted panel issues no request and
  ends with the \<^verbatim>\<open>TypeError\<close>'s message as the panel's error.
\<close>

theorem scanVAT_undefined:
  "filter (\<lambda>(panel, c). \<not> resolves c) panel_calls
     = [(''VATScanner'', Member ''market'' ''scanVAT''),
        (''VATScanner'', Member ''market'' ''scanVAT'')]
   \<and> api_member ''market'' ''scanVAT'' = None
   \<and> fetchVATData VATScanner_init =
       (VATScanner_init\<lparr>vat_error := Some (JStr ''api.market.scanVAT is not a function'')\<rparr>, None)"
  by (simp add: panel_calls_def api_member_def api_def fetchVATData_def VATScanner_init_def
        message_or_def Let_def)

section \<open>Verification: polling\<close>

lemma ticks_nonempty: "0 < p \<Longrightarrow> ticks p (Suc p) = [p]"
  by (simp add: ticks_def)

text \<open>
  C5 as stated fails: as long as the timeframe is not changed, HighVolumeScanner calls its
  fetch function \<^verbatim>\<open>scanStocks\<close> on mount and never again, so for no period do its calls
  agree with a polling timer's at every unmount time.
\<close>

theorem polling_counterexample:
  "\<not> (\<exists>p>0. \<forall>unmount. calls HighVolumeScanner_effect [] unmount unmount
          = (0, ''scanStocks'') # map (\<lambda>t. (t, ''scanStocks'')) (ticks p unmount))"
proof
  assume "\<exists>p>0. \<forall>unmount. calls HighVolumeScanner_effect [] unmount unmount
          = (0, ''scanStocks'') # map (\<lambda>t. (t, ''scanStocks'')) (ticks p unmount)"
  then obtain p where p: "0 < p"
    and eq: "\<forall>unmount. calls HighVolumeScanner_effect [] unmount unmount
          = (0, ''scanStocks'') # map (\<lambda>t. (t, ''scanStocks'')) (ticks p unmount)"
    by blast
  from eq have "calls HighVolumeScanner_effect [] (Suc p) (Suc p)
      = (0, ''scanStocks'') # map (\<lambda>t. (t, ''scanStocks'')) (ticks p (Suc p))"
    by blast
  then show False
    using p
    by (simp add: calls_def runs_def run_calls_def HighVolumeScanner_effect_def ticks_nonempty)
qed

lemma set_ticks: "set (ticks p stop) = {t. 0 < p \<and> 0 < t \<and> t < stop \<and> p dvd t}"
proof (cases "p = 0")
  case True
  then show ?thesis by (simp add: ticks_def)
next
  case False
  then have p: "0 < p" by simp
  have "\<And>t. t \<in> set (ticks p stop) \<longleftrightarrow> 0 < t \<and> t < stop \<and> p dvd t"
  proof
    fix t
    assume "t \<in> set (ticks p stop)"
    then obtain k where k: "1 \<le> k" "k \<le> (stop - 1) div p" "t = k * p"
      using p by (auto simp: ticks_def)
    from k(2) p have le: "k * p \<le> stop - 1"
      by (simp add: less_eq_div_iff_mult_less_eq)
    from k(1) p have pos: "0 < k * p" by simp
    from le pos have "k * p < stop" by linarith
    with pos show "0 < t \<and> t < stop \<and> p dvd t"
      unfolding k(3) by simp
  next
    fix t
    assume a: "0 < t \<and> t < stop \<and> p dvd t"
    then obtain k where k: "t = k * p"
      by (auto simp: dvd_def mult.commute)
    with a have "1 \<le> k" by (cases k) auto
    moreover from a k have "k * p < stop" by simp
    then have "k * p \<le> stop - 1" by linarith
    then have "k \<le> (stop - 1) div p"
      using p by (simp add: less_eq_div_iff_mult_less_eq)
    ultimately show "t \<in> set (ticks p stop)"
      using p k by (auto simp: ticks_def)
  qed
  then show ?thesis using p by auto
qed

lemma calls_no_deps:
  "deps lc = [] \<Longrightarrow> calls lc changes unmount horizon = run_calls lc horizon 0 unmount"
  by (simp add: calls_def runs_def)

lemma concat_map_single: "concat (map (\<lambda>x. [g x]) xs) = map g xs"
  by (induction xs) auto

lemma map_fst_runs: "map fst (runs changes unmount) = 0 # changes"
  by (simp add: runs_def)

text \<open>
  C5, as the code has it. MarketIndices (period 10000 ms), MarketStateDetector,
  RealTimeAlerts and ActiveStrategy (30000 ms) call their fetch function at the mount and
  then at every multiple of their period before the unmount, whose cleanup clears the
  timer: the calls depend neither on the horizon nor on anything that changes meanwhile.
  VATScanner's effect depends on the selected symbol: it calls the fetch function at the
  mount and at every change of the symbol, and after each of these at every multiple of
  30000 ms before the next change or the unmount, which clear the timer. HighVolumeScanner
  calls its fetch function at the mount and at every change of the timeframe, and has no
  timer; QuantDashboard calls its at the mount only. The ticks of a timer of period \<open>p\<close>
  are the positive multiples of \<open>p\<close> before its running time is over.
\<close>

theorem polling_panels:
  "calls MarketIndices_effect changes unmount horizon
     = (0, ''fetchIndices'') # map (\<lambda>t. (t, ''fetchIndices'')) (ticks 10000 unmount)
   \<and> calls MarketStateDetector_effect changes unmount horizon
     = (0, ''fetchState'') # map (\<lambda>t. (t, ''fetchState'')) (ticks 30000 unmount)
   \<and> calls RealTimeAlerts_effect changes unmount horizon
     = (0, ''fetchAlerts'') # map (\<lambda>t. (t, ''fetchAlerts'')) (ticks 30000 unmount)
   \<and> calls ActiveStrategy_effect changes unmount horizon
     = (0, ''fetchStrategy'') # map (\<lambda>t. (t, ''fetchStrategy'')) (ticks 30000 unmount)
   \<and> calls VATScanner_effect changes unmount horizon
     = concat (map (\<lambda>(start, finish).
                      (start, ''fetchVATData'')
                        # map (\<lambda>t. (start + t, ''fetchVATData'')) (ticks 30000 (finish - start)))
                 (zip (0 # changes) (changes @ [unmount])))
   \<and> calls HighVolumeScanner_effect changes unmount horizon
     = map (\<lambda>start. (start, ''scanStocks'')) (0 # changes)
   \<and> calls QuantDashboard_effect changes unmount horizon = [(0, ''fetchTopStocks'')]
   \<and> set (ticks p dur) = {t. 0 < p \<and> 0 < t \<and> t < dur \<and> p dvd t}"
proof (intro conjI)
  show "set (ticks p dur) = {t. 0 < p \<and> 0 < t \<and> t < dur \<and> p dvd t}"
    by (rule set_ticks)
  show "calls VATScanner_effect changes unmount horizon
     = concat (map (\<lambda>(start, finish).
                      (start, ''fetchVATData'')
                        # map (\<lambda>t. (start + t, ''fetchVATData'')) (ticks 30000 (finish - start)))
                 (zip (0 # changes) (changes @ [unmount])))"
    by (simp add: calls_def runs_def run_calls_def VATScanner_effect_def)
  have "calls HighVolumeScanner_effect changes unmount horizon
      = concat (map (\<lambda>r. [(fst r, ''scanStocks'')]) (runs changes unmount))"
    by (simp add: calls_def run_calls_def HighVolumeScanner_effect_def case_prod_unfold)
  also have "\<dots> = map (\<lambda>r. (fst r, ''scanStocks'')) (runs changes unmount)"
    by (rule concat_map_single)
  also have "\<dots> = map (\<lambda>start. (start, ''scanStocks'')) (map fst (runs changes unmount))"
    by (simp add: comp_def)
  finally show "calls HighVolumeScanner_effect changes unmount horizon
      = map (\<lambda>start. (start, ''scanStocks'')) (0 # changes)"
    by (simp only: map_fst_runs)
qed (simp_all add: calls_no_deps run_calls_def MarketIndices_effect_def
       MarketStateDetector_effect_def RealTimeAlerts_effect_def ActiveStrategy_effect_def
       QuantDashboard_effect_def)

text \<open>
  The calls of three panels: MarketIndices unmounts after 25 seconds; in VATScanner the
  other index is chosen after 10 seconds and the panel unmounts after 75; in
  HighVolumeScanner the other timeframe is chosen after 5 seconds.
\<close>

theorem polling_panels_witness:
  "calls MarketIndices_effect [] 25000 60000
     = [(0, ''fetchIndices''), (10000, ''fetchIndices''), (20000, ''fetchIndices'')]
   \<and> calls VATScanner_effect [10000] 75000 100000
     = [(0, ''fetchVATData''), (10000, ''fetchVATData''), (40000, ''fetchVATData''),
        (70000, ''fetchVATData'')]
   \<and> calls HighVolumeScanner_effect [5000] 25000 60000
     = [(0, ''scanStocks''), (5000, ''scanStocks'')]"
proof -
  have t: "ticks 10000 25000 = [10000, 20000]" "ticks 30000 10000 = []"
    "ticks 30000 65000 = [30000, 60000]"
    by (simp_all add: ticks_def upt_conv_Cons)
  note th = polling_panels [of "[]" 25000 60000 1 25000]
    polling_panels [of "[10000]" 75000 100000 1 25000]
    polling_panels [of "[5000]" 25000 60000 1 25000]
  have a: "calls MarketIndices_effect [] 25000 60000
     = (0, ''fetchIndices'') # map (\<lambda>t. (t, ''fetchIndices'')) (ticks 10000 25000)"
    using th(1) by (rule conjunct1)
  have b: "calls VATScanner_effect [10000] 75000 100000
     = concat (map (\<lambda>(start, finish).
                      (start, ''fetchVATData'')
                        # map (\<lambda>t. (start + t, ''fetchVATData'')) (ticks 30000 (finish - start)))
                 (zip (0 # [10000]) ([10000] @ [75000])))"
    using th(2) by blast
  have c: "calls HighVolumeScanner_effect [5000] 25000 60000
     = map (\<lambda>start. (start, ''scanStocks'')) (0 # [5000])"
    using th(3) by blast
  show ?thesis
    unfolding a b c by (simp add: t)
qed


section \<open>Verification: failure handling of the panels\<close>

lemma message_or_nonempty: "fallback \<noteq> [] \<Longrightarrow> message_or err fallback \<noteq> []"
  by (simp add: message_or_def)

text \<open>
  C4, as the code has it. When HighVolumeScanner's scan or option chain analysis fails,
  the handler of the failure issues no request, and the panel renders the error's message
  (or a fixed text when it has none) with a Retry button. A click on Retry runs
  \<^verbatim>\<open>scanStocks\<close>, which requests the high volume scan for the current timeframe, whichever
  request had failed. OptionChainTable renders the error's message with a Retry button
  that refetches the query, unless it is loading without data.
\<close>

theorem retry_on_click:
  "hvs_error_box (fst (scanStocks_rejected err s))
     = Some (message_or err ''Failed to scan stocks'', Button ''Retry'' ScanStocks)
   \<and> snd (scanStocks_rejected err s) = []
   \<and> hvs_error_box (fst (analyzeOptionChains_rejected err s))
     = Some (message_or err ''Failed to analyze option chains'', Button ''Retry'' ScanStocks)
   \<and> snd (analyzeOptionChains_rejected err s) = []
   \<and> snd (hvs_click ScanStocks s')
     = [Request ''market'' ''scanHighVolume'' [JStr (timeframe s'), JNum 5]]
   \<and> (q_error q = Some e \<and> \<not> (isLoading q \<and> q_data q = None) \<longrightarrow>
        OptionChainTable_render fsub parse q
          = OC_Error (error_message e) (Button ''Retry'' Refetch))"
proof (intro conjI impI)
  have a: "message_or err ''Failed to scan stocks'' \<noteq> []"
    by (rule message_or_nonempty) simp
  then show "hvs_error_box (fst (scanStocks_rejected err s))
     = Some (message_or err ''Failed to scan stocks'', Button ''Retry'' ScanStocks)"
    by (simp add: hvs_error_box_def scanStocks_rejected_def)
  have b: "message_or err ''Failed to analyze option chains'' \<noteq> []"
    by (rule message_or_nonempty) simp
  then show "hvs_error_box (fst (analyzeOptionChains_rejected err s))
     = Some (message_or err ''Failed to analyze option chains'', Button ''Retry'' ScanStocks)"
    by (simp add: hvs_error_box_def analyzeOptionChains_rejected_def)
  show "snd (scanStocks_rejected err s) = []"
    by (simp add: scanStocks_rejected_def)
  show "snd (analyzeOptionChains_rejected err s) = []"
    by (simp add: analyzeOptionChains_rejected_def)
  show "snd (hvs_click ScanStocks s')
     = [Request ''market'' ''scanHighVolume'' [JStr (timeframe s'), JNum 5]]"
    by (simp add: scanStocks_def)
next
  assume "q_error q = Some e \<and> \<not> (isLoading q \<and> q_data q = None)"
  then show "OptionChainTable_render fsub parse q
      = OC_Error (error_message e) (Button ''Retry'' Refetch)"
    by (auto simp: OptionChainTable_render_def)
qed

text \<open>The theorem at a scan and an option chain query that failed with a 500.\<close>

theorem retry_on_click_witness:
  "hvs_error_box (fst (scanStocks_rejected (Error ''Request failed with status 500'')
        (fst (scanStocks HighVolumeScanner_init))))
     = Some (''Request failed with status 500'', Button ''Retry'' ScanStocks)
   \<and> OptionChainTable_render exact_sub no_numeral
        \<lparr>q_data = None, isLoading = False, q_error = Some (Error ''Request failed with status 500'')\<rparr>
     = OC_Error ''Request failed with status 500'' (Button ''Retry'' Refetch)"
proof -
  let ?e = "Error ''Request failed with status 500''"
  let ?q = "\<lparr>q_data = None, isLoading = False, q_error = Some ?e\<rparr>"
  have m: "message_or ?e ''Failed to scan stocks'' = ''Request failed with status 500''"
    by (simp add: message_or_def)
  have h: "q_error ?q = Some ?e \<and> \<not> (isLoading ?q \<and> q_data ?q = None)"
    by simp
  note t = retry_on_click [of ?e "fst (scanStocks HighVolumeScanner_init)" HighVolumeScanner_init
                             ?q ?e exact_sub no_numeral]
  from t have "hvs_error_box (fst (scanStocks_rejected ?e (fst (scanStocks HighVolumeScanner_init))))
     = Some (message_or ?e ''Failed to scan stocks'', Button ''Retry'' ScanStocks)"
    by (rule conjunct1)
  moreover from t h have "OptionChainTable_render exact_sub no_numeral ?q
      = OC_Error (error_message ?e) (Button ''Retry'' Refetch)"
    by blast
  ultimately show ?thesis
    by (simp add: m)
qed

text \<open>
  C4 as stated fails: after a failed option chain analysis, HighVolumeScanner's Retry
  button does not issue the analysis request again but a new scan.
\<close>

theorem retry_same_request_counterexample:
  "hvs_error_box hvs_analysis_failed
     = Some (''Request failed with status 500'', Button ''Retry'' ScanStocks)
   \<and> snd (analyzeOptionChains hvs_after_scan)
     = [Request ''market'' ''bulkOCAnalysis'' [JArr [JStr ''NSE:SBIN-EQ'']]]
   \<and> snd (hvs_click ScanStocks hvs_analysis_failed)
     = [Request ''market'' ''scanHighVolume'' [JStr ''15'', JNum 5]]
   \<and> snd (hvs_click ScanStocks hvs_analysis_failed) \<noteq> snd (analyzeOptionChains hvs_after_scan)"
  by (simp add: hvs_analysis_failed_def hvs_after_scan_def hvs_error_box_def
        analyzeOptionChains_rejected_def analyzeOptionChains_def scanStocks_resolved_def
        scanStocks_def HighVolumeScanner_init_def message_or_def)

section \<open>Verification: what is computed on the client\<close>

lemma truthy_Some: "truthy x \<Longrightarrow> \<exists>v. x = Some v"
  by (cases x) auto




end
